theory Spec2Isabelle
  imports Complex_Main "HOL-Library.AList"
begin

section \<open>Python values\<close>

text \<open>
  The client moves JSON documents around: what \<open>response.json()\<close> returns, the
  dictionaries it builds for request parameters and bodies, and the attributes it copies
  out of a payload. One datatype stands for all of them. \<open>JNull\<close> is Python's \<open>None\<close>;
  a dictionary is an association list in insertion order and is read with \<open>map_of\<close>;
  a finite float is the rational it denotes (only its equality with integers and its
  truth value are used), and \<open>JNonFinite\<close> stands for NaN and the infinities, which
  Python's parser accepts. Each \<open>char\<close> of a string stands for one character of the
  Python \<open>str\<close>.
\<close>

datatype json =
    JNull
  | JBool bool
  | JInt int
  | JFloat rat
  | JNonFinite
  | JStr string
  | JArr "json list"
  | JObj "(string \<times> json) list"

text \<open>
  The exceptions that the modelled code raises or lets through. The first two are the
  classes of \<open>errors.py\<close>; the others are Python's built-in ones.
\<close>

datatype error =
    InvalidTokenError
  | ExpiredTokenError
  | KeyError
  | TypeError
  | IndexError
  | AttributeError

text \<open>\<open>obj[key]\<close> with a string key: only a dictionary can be subscripted by a string.\<close>

fun getitem :: "json \<Rightarrow> string \<Rightarrow> error + json" where
  "getitem (JObj kvs) k = (case map_of kvs k of None \<Rightarrow> Inl KeyError | Some v \<Rightarrow> Inr v)"
| "getitem _ k = Inl TypeError"

text \<open>
  \<open>xs[i]\<close> on a sequence of length \<open>n\<close>: the positions \<open>0\<close> to \<open>n - 1\<close> are read
  directly, the positions \<open>-n\<close> to \<open>-1\<close> from the end, and anything else raises
  \<open>IndexError\<close>.
\<close>

definition seq_index :: "'a list \<Rightarrow> int \<Rightarrow> error + 'a" where
  "seq_index xs i =
     (if 0 \<le> i \<and> i < int (length xs) then Inr (xs ! nat i)
      else if - int (length xs) \<le> i \<and> i < 0 then Inr (xs ! nat (int (length xs) + i))
      else Inl IndexError)"

text \<open>
  \<open>obj[index]\<close> with an integer index. A dictionary parsed from JSON has string keys
  only, so an integer key is never found.
\<close>

fun getitem_int :: "json \<Rightarrow> int \<Rightarrow> error + json" where
  "getitem_int (JArr xs) i = seq_index xs i"
| "getitem_int (JStr s) i = map_sum id (\<lambda>c. JStr [c]) (seq_index s i)"
| "getitem_int (JObj kvs) i = Inl KeyError"
| "getitem_int _ i = Inl TypeError"

text \<open>\<open>obj.get(key, default)\<close>: only a dictionary has the attribute \<open>get\<close>.\<close>

fun py_get :: "json \<Rightarrow> string \<Rightarrow> json \<Rightarrow> error + json" where
  "py_get (JObj kvs) k d = Inr (case map_of kvs k of None \<Rightarrow> d | Some v \<Rightarrow> v)"
| "py_get _ k d = Inl AttributeError"

text \<open>\<open>d[key] = v\<close> on a dictionary: replace in place, or append.\<close>

definition dict_set :: "(string \<times> json) list \<Rightarrow> string \<Rightarrow> json \<Rightarrow> (string \<times> json) list" where
  "dict_set d k v = AList.update k v d"

text \<open>The truth value Python gives a value in \<open>if v:\<close>.\<close>

fun truthy :: "json \<Rightarrow> bool" where
  "truthy JNull = False"
| "truthy (JBool b) = b"
| "truthy (JInt i) = (i \<noteq> 0)"
| "truthy (JFloat r) = (r \<noteq> 0)"
| "truthy JNonFinite = True"
| "truthy (JStr s) = (s \<noteq> [])"
| "truthy (JArr xs) = (xs \<noteq> [])"
| "truthy (JObj kvs) = (kvs \<noteq> [])"

text \<open>
  \<open>v == n\<close> for an integer literal \<open>n\<close>: Python compares numbers by value, and
  \<open>True\<close> and \<open>False\<close> are the integers 1 and 0.
\<close>

fun py_eq_int :: "json \<Rightarrow> int \<Rightarrow> bool" where
  "py_eq_int (JInt i) n = (i = n)"
| "py_eq_int (JBool b) n = ((if b then 1 else 0) = n)"
| "py_eq_int (JFloat r) n = (r = of_int n)"
| "py_eq_int _ n = False"

text \<open>\<open>str(b)\<close> for a \<open>bool\<close>.\<close>

definition str_bool :: "bool \<Rightarrow> string" where
  "str_bool b = (if b then ''True'' else ''False'')"

section \<open>Constants and collaborators that src/ does not hold\<close>

text \<open>
  \<open>const.py\<close> and \<open>util.py\<close> are imported by the module and are not among the sources.
  Their constants, \<open>convert_to_bool\<close> and the serialiser \<open>json.dumps\<close> are parameters
  of the model: every definition below takes a record of them.
\<close>

record ecobee_const =
  ECOBEE_ACCESS_TOKEN :: string
  ECOBEE_API_KEY :: string
  ECOBEE_API_VERSION :: string
  ECOBEE_AUTHORIZATION_CODE :: string
  ECOBEE_BASE_URL :: string
  ECOBEE_DEFAULT_TIMEOUT :: int
  ECOBEE_ENDPOINT_AUTH :: string
  ECOBEE_ENDPOINT_THERMOSTAT :: string
  ECOBEE_ENDPOINT_TOKEN :: string
  ECOBEE_REFRESH_TOKEN :: string
  ECOBEE_OPTIONS_NOTIFICATIONS :: string
  convert_to_bool :: "json \<Rightarrow> bool"
  json_dumps :: "json \<Rightarrow> string"

section \<open>Requests, responses and the log\<close>

datatype header = ContentType string | AuthorizationBearer json

record http_request =
  http_method :: string
  url :: string
  headers :: "header list"
  params :: json
  json_arg :: json
  timeout :: int

text \<open>
  A received response: its status, what \<open>response.json()\<close> gives (\<open>None\<close> when the
  body does not parse and the call raises \<open>JSONDecodeError\<close>), and \<open>response.text\<close>.
\<close>

record response =
  status_code :: int
  json_body :: "json option"
  body_text :: string

text \<open>
  What \<open>requests.request\<close> does with one call: it raises \<open>Timeout\<close>, raises another
  \<open>RequestException\<close>, or returns a response.
\<close>

datatype transport = RaisesTimeout | RaisesRequestException | Returns response

text \<open>
  One constructor per logging call of the module, carrying the values its message
  interpolates. The \<open>Error\<close> entries are \<open>_LOGGER.error\<close>, the \<open>Debug\<close> entries
  \<open>_LOGGER.debug\<close>.
\<close>

datatype log_entry =
    DebugMakingRequest string string http_request
  | DebugRequestResponse int "json + string"
  | DebugInvalidJsonPayload
  | ErrorRequestingAuthorization int json
  | ErrorFromEcobeeStatus string json json
  | ErrorFromEcobee string int json
  | ErrorTimedOut string
  | ErrorConnecting string
  | ErrorNoCredentials
  | DebugAuthorizePin json
  | DebugErrorObtainingPin error
  | DebugObtainedTokens json json
  | DebugErrorObtainingTokens error
  | DebugRefreshedTokens json json
  | DebugErrorRefreshingTokens error

section \<open>The client\<close>

text \<open>
  The attributes of an \<open>Ecobee\<close> object, then the trace of its effects on the outside:
  the log, the calls of \<open>requests.request\<close>, and the configuration files written.
  \<open>file_based_config\<close> is the attribute \<open>_file_based_config\<close>, which the constructor
  leaves unassigned (\<open>None\<close> here) when it returns early.
\<close>

record ecobee =
  thermostats :: json
  config_filename :: json
  config :: json
  api_key :: json
  pin :: json
  authorization_code :: json
  access_token :: json
  refresh_token :: json
  include_notifications :: bool
  file_based_config :: "bool option"
  logged :: "log_entry list"
  requested :: "http_request list"
  files :: "(json \<times> json) list"

definition add_log :: "log_entry \<Rightarrow> ecobee \<Rightarrow> ecobee" where
  "add_log l st = st\<lparr>logged := logged st @ [l]\<rparr>"

text \<open>\<open>response.raise_for_status()\<close> raises \<open>HTTPError\<close> for a 4xx or 5xx status.\<close>

definition raises_http_error :: "int \<Rightarrow> bool" where
  "raises_http_error s = (400 \<le> s \<and> s < 600)"

text \<open>\<open>json_payload.get("status", {}).get(key, default)\<close>, as \<open>_request\<close> reads it twice.\<close>

definition status_field :: "json \<Rightarrow> string \<Rightarrow> json \<Rightarrow> error + json" where
  "status_field json_payload k d =
     (case py_get json_payload ''status'' (JObj []) of
        Inl err \<Rightarrow> Inl err
      | Inr s \<Rightarrow> py_get s k d)"

text \<open>
  The \<open>except HTTPError\<close> branch of \<open>_request\<close> (lines 443 to 482): what leaves the
  method, and the entries it logs on the way. An exception raised inside the branch is
  not caught by the later \<open>except\<close> clauses of the same \<open>try\<close>.
\<close>

definition on_http_error :: "response \<Rightarrow> string \<Rightarrow> bool \<Rightarrow> (error + json) \<times> log_entry list" where
  "on_http_error r log_msg_action auth_request =
     (let json_payload = (case json_body r of None \<Rightarrow> JObj [] | Some j \<Rightarrow> j);
          lg = (case json_body r of None \<Rightarrow> [DebugInvalidJsonPayload] | Some j \<Rightarrow> [])
      in
      if auth_request then
        (if status_code r = 400 then
           (case py_get json_payload ''error'' JNull of
              Inl err \<Rightarrow> (Inl err, lg)
            | Inr v \<Rightarrow>
                if v = JStr ''invalid_grant'' then (Inl InvalidTokenError, lg)
                else (Inr JNull, lg @ [ErrorRequestingAuthorization (status_code r) json_payload]))
         else (Inr JNull, lg @ [ErrorRequestingAuthorization (status_code r) json_payload]))
      else if status_code r = 500 then
        (case status_field json_payload ''code'' JNull of
           Inl err \<Rightarrow> (Inl err, lg)
         | Inr code \<Rightarrow>
             if py_eq_int code 1 \<or> py_eq_int code 16 then (Inl InvalidTokenError, lg)
             else if py_eq_int code 14 then (Inl ExpiredTokenError, lg)
             else
               (case status_field json_payload ''message'' (JStr ''Unknown error'') of
                  Inl err \<Rightarrow> (Inl err, lg)
                | Inr msg \<Rightarrow> (Inr JNull, lg @ [ErrorFromEcobeeStatus log_msg_action code msg])))
      else (Inr JNull, lg @ [ErrorFromEcobee log_msg_action (status_code r) json_payload]))"

text \<open>
  The \<open>try\<close> statement of \<open>_request\<close> (lines 428 to 493) once \<open>requests.request\<close> has
  been called: what leaves the method, \<open>Inl\<close> of an exception or \<open>Inr\<close> of the value
  returned (\<open>JNull\<close> for \<open>None\<close>), and the entries logged.
\<close>

definition request_outcome :: "transport \<Rightarrow> string \<Rightarrow> bool \<Rightarrow> (error + json) \<times> log_entry list" where
  "request_outcome t log_msg_action auth_request =
     (case t of
        RaisesTimeout \<Rightarrow> (Inr JNull, [ErrorTimedOut log_msg_action])
      | RaisesRequestException \<Rightarrow> (Inr JNull, [ErrorConnecting log_msg_action])
      | Returns r \<Rightarrow>
          (let lg = [DebugRequestResponse (status_code r)
                       (case json_body r of Some j \<Rightarrow> Inl j | None \<Rightarrow> Inr (body_text r))]
           in
           if raises_http_error (status_code r) then
             (let out = on_http_error r log_msg_action auth_request in (fst out, lg @ snd out))
           else
             (case json_body r of
                Some j \<Rightarrow> (Inr j, lg)
              | None \<Rightarrow> (Inr JNull, lg @ [ErrorConnecting log_msg_action]))))"

text \<open>
  The arguments \<open>_request\<close> hands to \<open>requests.request\<close> (lines 413 to 421 and 429
  to 431): an authorisation request goes to the bare endpoint without headers, any other
  to the versioned endpoint with the bearer token.
\<close>

definition build_request ::
  "ecobee_const \<Rightarrow> string \<Rightarrow> string \<Rightarrow> json \<Rightarrow> json \<Rightarrow> bool \<Rightarrow> ecobee \<Rightarrow> http_request" where
  "build_request e meth endpoint ps body auth_request st =
     \<lparr>http_method = meth,
      url = (if \<not> auth_request
             then ECOBEE_BASE_URL e @ ''/'' @ ECOBEE_API_VERSION e @ ''/'' @ endpoint
             else ECOBEE_BASE_URL e @ ''/'' @ endpoint),
      headers = (if \<not> auth_request
                 then [ContentType ''application/json;charset=UTF-8'',
                       AuthorizationBearer (access_token st)]
                 else []),
      params = ps, json_arg = body, timeout = ECOBEE_DEFAULT_TIMEOUT e\<rparr>"

text \<open>
  \<open>_request\<close> (lines 403 to 493): it logs the request, calls \<open>requests.request\<close> and
  handles what comes back. Of the object it reads the access token only; its effects are
  the call made and the entries logged.
\<close>

definition request ::
  "ecobee_const \<Rightarrow> transport \<Rightarrow> string \<Rightarrow> string \<Rightarrow> string \<Rightarrow> json \<Rightarrow> json \<Rightarrow> bool \<Rightarrow> ecobee
     \<Rightarrow> (error + json) \<times> ecobee" where
  "request e t meth endpoint log_msg_action ps body auth_request st =
     (let rq = build_request e meth endpoint ps body auth_request st;
          out = request_outcome t log_msg_action auth_request
      in (fst out,
          st\<lparr>logged := logged st @ [DebugMakingRequest endpoint log_msg_action rq] @ snd out,
             requested := requested st @ [rq]\<rparr>))"

section \<open>Configuration\<close>

text \<open>
  \<open>_load_config\<close> (lines 61 to 67). The subscript on the first line raises unless
  \<open>self.config\<close> is a dictionary holding the API key; after it, \<open>self.config\<close> is a
  dictionary and \<open>get\<close> and \<open>in\<close> cannot fail.
\<close>

definition load_config :: "ecobee_const \<Rightarrow> ecobee \<Rightarrow> (error + unit) \<times> ecobee" where
  "load_config e st =
     (case getitem (config st) (ECOBEE_API_KEY e) of
        Inl err \<Rightarrow> (Inl err, st)
      | Inr k \<Rightarrow>
          (case config st of
             JObj kvs \<Rightarrow>
               (let st1 = st\<lparr>api_key := k\<rparr>;
                    st2 = st1\<lparr>access_token :=
                            (case map_of kvs (ECOBEE_ACCESS_TOKEN e) of None \<Rightarrow> JNull | Some v \<Rightarrow> v)\<rparr>;
                    st3 = st2\<lparr>authorization_code :=
                            (case map_of kvs (ECOBEE_AUTHORIZATION_CODE e) of None \<Rightarrow> JNull | Some v \<Rightarrow> v)\<rparr>;
                    st4 = st3\<lparr>refresh_token :=
                            (case map_of kvs (ECOBEE_REFRESH_TOKEN e) of None \<Rightarrow> JNull | Some v \<Rightarrow> v)\<rparr>
                in
                case map_of kvs (ECOBEE_OPTIONS_NOTIFICATIONS e) of
                  None \<Rightarrow> (Inr (), st4)
                | Some v \<Rightarrow> (Inr (), st4\<lparr>include_notifications := convert_to_bool e v\<rparr>))
           | _ \<Rightarrow> (Inl TypeError, st)))"


text \<open>
  \<open>__init__\<close> (lines 34 to 53). With neither a file name nor a configuration it logs an
  error and returns before \<open>_file_based_config\<close> is assigned.
\<close>

definition init :: "ecobee_const \<Rightarrow> json \<Rightarrow> json \<Rightarrow> (error + unit) \<times> ecobee" where
  "init e filename cfg =
     (let st = \<lparr>thermostats = JNull, config_filename = filename, config = cfg,
                api_key = JNull, pin = JNull, authorization_code = JNull,
                access_token = JNull, refresh_token = JNull,
                include_notifications = False, file_based_config = None,
                logged = [], requested = [], files = []\<rparr>
      in
      if filename = JNull \<and> cfg = JNull then (Inr (), add_log ErrorNoCredentials st)
      else if truthy cfg then load_config e (st\<lparr>file_based_config := Some False\<rparr>)
      else (Inr (), st\<lparr>file_based_config := Some True\<rparr>))"

text \<open>
  Modelled from the spec: \<open>config_from_file(filename, config)\<close> of \<open>util.py\<close>, which is
  not among the sources. Section 6 of the spec gives the persistence collaborator as
  \<open>save(Credentials) -> void\<close> with key-value semantics: the mapping is stored under
  the file name, replacing what was stored there.
\<close>

definition config_from_file :: "json \<Rightarrow> json \<Rightarrow> ecobee \<Rightarrow> ecobee" where
  "config_from_file filename cfg st = st\<lparr>files := AList.update filename cfg (files st)\<rparr>"

text \<open>The dictionary that \<open>_write_config\<close> builds (lines 71 to 76).\<close>

definition written_config :: "ecobee_const \<Rightarrow> ecobee \<Rightarrow> (string \<times> json) list" where
  "written_config e st =
     (let c0 = [];
          c1 = dict_set c0 (ECOBEE_API_KEY e) (api_key st);
          c2 = dict_set c1 (ECOBEE_ACCESS_TOKEN e) (access_token st);
          c3 = dict_set c2 (ECOBEE_REFRESH_TOKEN e) (refresh_token st);
          c4 = dict_set c3 (ECOBEE_AUTHORIZATION_CODE e) (authorization_code st);
          c5 = dict_set c4 (ECOBEE_OPTIONS_NOTIFICATIONS e) (JStr (str_bool (include_notifications st)))
      in c5)"

text \<open>
  \<open>_write_config\<close> (lines 69 to 80). Reading \<open>self._file_based_config\<close> raises
  \<open>AttributeError\<close> on an object whose constructor never assigned it.
\<close>

definition write_config :: "ecobee_const \<Rightarrow> ecobee \<Rightarrow> (error + unit) \<times> ecobee" where
  "write_config e st =
     (case file_based_config st of
        None \<Rightarrow> (Inl AttributeError, st)
      | Some fb \<Rightarrow>
          if fb then (Inr (), config_from_file (config_filename st) (JObj (written_config e st)) st)
          else (Inr (), st\<lparr>config := JObj (written_config e st)\<rparr>))"

text \<open>
  The configuration as persisted: the file stored under the object's file name for a
  file-based client, \<open>self.config\<close> otherwise.
\<close>

definition persisted :: "ecobee \<Rightarrow> json option" where
  "persisted st =
     (case file_based_config st of
        None \<Rightarrow> None
      | Some fb \<Rightarrow> if fb then map_of (files st) (config_filename st) else Some (config st))"

section \<open>The token handshake\<close>

text \<open>
  The handler \<open>except (KeyError, TypeError) as err\<close> of the three handshake methods: it
  logs at debug level and returns \<open>False\<close>; any other exception passes through.
\<close>

definition except_key_type :: "(error \<Rightarrow> log_entry) \<Rightarrow> error \<Rightarrow> ecobee \<Rightarrow> (error + bool) \<times> ecobee" where
  "except_key_type entry err st =
     (if err = KeyError \<or> err = TypeError then (Inr False, add_log (entry err) st)
      else (Inl err, st))"

text \<open>\<open>request_pin\<close> (lines 82 to 111).\<close>

definition request_pin :: "ecobee_const \<Rightarrow> transport \<Rightarrow> ecobee \<Rightarrow> (error + bool) \<times> ecobee" where
  "request_pin e t st =
     (let ps = JObj [(''response_type'', JStr ''ecobeePin''),
                     (''client_id'', api_key st),
                     (''scope'', JStr ''smartWrite'')];
          log_msg_action = ''request pin''
      in
      case request e t ''GET'' (ECOBEE_ENDPOINT_AUTH e) log_msg_action ps JNull True st of
        (Inl err, st1) \<Rightarrow> (Inl err, st1)
      | (Inr resp, st1) \<Rightarrow>
          (case getitem resp ''code'' of
             Inl err \<Rightarrow> except_key_type DebugErrorObtainingPin err st1
           | Inr c \<Rightarrow>
               (let st2 = st1\<lparr>authorization_code := c\<rparr>
                in
                case getitem resp ''ecobeePin'' of
                  Inl err \<Rightarrow> except_key_type DebugErrorObtainingPin err st2
                | Inr p \<Rightarrow>
                    (let st3 = st2\<lparr>pin := p\<rparr>
                     in (Inr True, add_log (DebugAuthorizePin (pin st3)) st3)))))"

text \<open>\<open>request_tokens\<close> (lines 113 to 140).\<close>

definition request_tokens :: "ecobee_const \<Rightarrow> transport \<Rightarrow> ecobee \<Rightarrow> (error + bool) \<times> ecobee" where
  "request_tokens e t st =
     (let ps = JObj [(''grant_type'', JStr ''ecobeePin''),
                     (''code'', authorization_code st),
                     (''client_id'', api_key st)];
          log_msg_action = ''request tokens''
      in
      case request e t ''POST'' (ECOBEE_ENDPOINT_TOKEN e) log_msg_action ps JNull True st of
        (Inl err, st1) \<Rightarrow> (Inl err, st1)
      | (Inr resp, st1) \<Rightarrow>
          (case getitem resp ''access_token'' of
             Inl err \<Rightarrow> except_key_type DebugErrorObtainingTokens err st1
           | Inr a \<Rightarrow>
               (let st2 = st1\<lparr>access_token := a\<rparr>
                in
                case getitem resp ''refresh_token'' of
                  Inl err \<Rightarrow> except_key_type DebugErrorObtainingTokens err st2
                | Inr rt \<Rightarrow>
                    (let st3 = st2\<lparr>refresh_token := rt\<rparr>
                     in
                     case write_config e st3 of
                       (Inl err, st4) \<Rightarrow> except_key_type DebugErrorObtainingTokens err st4
                     | (Inr u, st4) \<Rightarrow>
                         (let st5 = st4\<lparr>pin := JNull\<rparr>
                          in (Inr True,
                              add_log (DebugObtainedTokens (access_token st5) (refresh_token st5)) st5))))))"

text \<open>\<open>refresh_tokens\<close> (lines 142 to 168).\<close>

definition refresh_tokens :: "ecobee_const \<Rightarrow> transport \<Rightarrow> ecobee \<Rightarrow> (error + bool) \<times> ecobee" where
  "refresh_tokens e t st =
     (let ps = JObj [(''grant_type'', JStr ''refresh_token''),
                     (''refresh_token'', refresh_token st),
                     (''client_id'', api_key st)];
          log_msg_action = ''refresh tokens''
      in
      case request e t ''POST'' (ECOBEE_ENDPOINT_TOKEN e) log_msg_action ps JNull True st of
        (Inl err, st1) \<Rightarrow> (Inl err, st1)
      | (Inr resp, st1) \<Rightarrow>
          (case getitem resp ''access_token'' of
             Inl err \<Rightarrow> except_key_type DebugErrorRefreshingTokens err st1
           | Inr a \<Rightarrow>
               (let st2 = st1\<lparr>access_token := a\<rparr>
                in
                case getitem resp ''refresh_token'' of
                  Inl err \<Rightarrow> except_key_type DebugErrorRefreshingTokens err st2
                | Inr rt \<Rightarrow>
                    (let st3 = st2\<lparr>refresh_token := rt\<rparr>
                     in
                     case write_config e st3 of
                       (Inl err, st4) \<Rightarrow> except_key_type DebugErrorRefreshingTokens err st4
                     | (Inr u, st4) \<Rightarrow>
                         (Inr True,
                          add_log (DebugRefreshedTokens (access_token st4) (refresh_token st4)) st4)))))"

section \<open>The device registry and the operations\<close>

text \<open>\<open>get_thermostats\<close> (lines 170 to 197). Its handler logs nothing.\<close>

definition get_thermostats :: "ecobee_const \<Rightarrow> transport \<Rightarrow> ecobee \<Rightarrow> (error + bool) \<times> ecobee" where
  "get_thermostats e t st =
     (let selection = [(''selectionType'', JStr ''registered''),
                       (''includeRuntime'', JStr ''true''),
                       (''includeSensors'', JStr ''true''),
                       (''includeProgram'', JStr ''true''),
                       (''includeEquipmentStatus'', JStr ''true''),
                       (''includeEvents'', JStr ''true''),
                       (''includeWeather'', JStr ''true''),
                       (''includeSettings'', JStr ''true'')];
          selection1 = (if include_notifications st
                        then dict_set selection ''includeNotificationSettings''
                               (JBool (include_notifications st))
                        else selection);
          param_string = JObj [(''selection'', JObj selection1)];
          ps = JObj [(''json'', JStr (json_dumps e param_string))];
          log_msg_action = ''get thermostats''
      in
      case request e t ''GET'' (ECOBEE_ENDPOINT_THERMOSTAT e) log_msg_action ps JNull False st of
        (Inl err, st1) \<Rightarrow> (Inl err, st1)
      | (Inr resp, st1) \<Rightarrow>
          (case getitem resp ''thermostatList'' of
             Inr l \<Rightarrow> (Inr True, st1\<lparr>thermostats := l\<rparr>)
           | Inl err \<Rightarrow>
               if err = KeyError \<or> err = TypeError then (Inr False, st1) else (Inl err, st1)))"

text \<open>
  \<open>post_update\<close> (lines 215 to 237). \<open>props\<close> and \<open>funcs\<close> are keyword-only parameters
  with default \<open>None\<close>, so a call is modelled with the list of keyword arguments it
  passes: Python raises \<open>TypeError\<close> for a keyword the signature does not have, before
  the body runs. The subscripts that build the body are outside the \<open>try\<close>; the handler
  re-raises the two token errors, and nothing else is caught.
\<close>

definition post_update ::
  "ecobee_const \<Rightarrow> transport \<Rightarrow> int \<Rightarrow> string \<Rightarrow> (string \<times> json) list \<Rightarrow> ecobee
     \<Rightarrow> (error + unit) \<times> ecobee" where
  "post_update e t index log_msg_action kwargs st =
     (if list_ex (\<lambda>k. k \<noteq> ''props'' \<and> k \<noteq> ''funcs'') (map fst kwargs) then (Inl TypeError, st)
      else
        (let props = (case map_of kwargs ''props'' of None \<Rightarrow> JNull | Some v \<Rightarrow> v);
             funcs = (case map_of kwargs ''funcs'' of None \<Rightarrow> JNull | Some v \<Rightarrow> v)
         in
         case getitem_int (thermostats st) index of
           Inl err \<Rightarrow> (Inl err, st)
         | Inr th \<Rightarrow>
             (case getitem th ''identifier'' of
                Inl err \<Rightarrow> (Inl err, st)
              | Inr ident \<Rightarrow>
                  (let body = [(''selection'', JObj [(''selectionType'', JStr ''thermostats''),
                                                     (''selectionMatch'', ident)])];
                       body1 = (if truthy props then dict_set body ''thermostat'' props else body);
                       body2 = (if truthy funcs then dict_set body1 ''functions'' funcs else body1)
                   in
                   case request e t ''POST'' (ECOBEE_ENDPOINT_THERMOSTAT e) log_msg_action
                          JNull (JObj body2) False st of
                     (Inl err, st1) \<Rightarrow> (Inl err, st1)
                   | (Inr resp, st1) \<Rightarrow> (Inr (), st1)))))"

text \<open>\<open>set_fan_mode\<close> (lines 253 to 276); the temperatures are integers.\<close>

definition set_fan_mode ::
  "ecobee_const \<Rightarrow> transport \<Rightarrow> int \<Rightarrow> string \<Rightarrow> int \<Rightarrow> int \<Rightarrow> string \<Rightarrow> ecobee
     \<Rightarrow> (error + unit) \<times> ecobee" where
  "set_fan_mode e t index fan_mode cool_temp heat_temp hold_type st =
     post_update e t index ''set fan mode''
       [(''funcs'',
         JArr [JObj [(''type'', JStr ''setHold''),
                     (''params'', JObj [(''holdType'', JStr hold_type),
                                        (''coolHoldTemp'', JInt (cool_temp * 10)),
                                        (''heatHoldTemp'', JInt (heat_temp * 10)),
                                        (''fan'', JStr fan_mode)])]])]
       st"

text \<open>
  \<open>set_hold_temp\<close> (lines 278 to 297). The call on its last line passes the keyword
  \<open>functions\<close>.
\<close>

definition set_hold_temp ::
  "ecobee_const \<Rightarrow> transport \<Rightarrow> int \<Rightarrow> int \<Rightarrow> int \<Rightarrow> string \<Rightarrow> string \<Rightarrow> ecobee
     \<Rightarrow> (error + unit) \<times> ecobee" where
  "set_hold_temp e t index cool_temp heat_temp hold_type hold_hours st =
     (let ps = [(''holdType'', JStr hold_type),
                (''coolHoldTemp'', JInt (cool_temp * 10)),
                (''heatHoldTemp'', JInt (heat_temp * 10))];
          ps1 = (if hold_type = ''holdHours'' then dict_set ps ''holdHours'' (JStr hold_hours) else ps);
          f = JObj [(''type'', JStr ''setHold''), (''params'', JObj ps1)]
      in post_update e t index ''set hold temp'' [(''functions'', JArr [f])] st)"

text \<open>\<open>send_message\<close> (lines 365 to 371): \<open>message[:500]\<close> is the first 500 characters.\<close>

definition send_message ::
  "ecobee_const \<Rightarrow> transport \<Rightarrow> int \<Rightarrow> string \<Rightarrow> ecobee \<Rightarrow> (error + unit) \<times> ecobee" where
  "send_message e t index message st =
     post_update e t index ''send message''
       [(''funcs'',
         JArr [JObj [(''type'', JStr ''sendMessage''),
                     (''params'', JObj [(''text'', JStr (take 500 message))])]])]
       st"

section \<open>Sample data\<close>

text \<open>
  Values for evaluating the model at concrete inputs: a choice of the constants, and the
  client that the constructor builds from a configuration dictionary holding an API key.
\<close>

definition sample_const :: ecobee_const where
  "sample_const =
     \<lparr>ECOBEE_ACCESS_TOKEN = ''ACCESS_TOKEN'', ECOBEE_API_KEY = ''API_KEY'',
      ECOBEE_API_VERSION = ''1'', ECOBEE_AUTHORIZATION_CODE = ''AUTHORIZATION_CODE'',
      ECOBEE_BASE_URL = ''https://api.ecobee.com'', ECOBEE_DEFAULT_TIMEOUT = 30,
      ECOBEE_ENDPOINT_AUTH = ''authorize'', ECOBEE_ENDPOINT_THERMOSTAT = ''thermostat'',
      ECOBEE_ENDPOINT_TOKEN = ''token'', ECOBEE_REFRESH_TOKEN = ''REFRESH_TOKEN'',
      ECOBEE_OPTIONS_NOTIFICATIONS = ''INCLUDE_NOTIFICATIONS'',
      convert_to_bool = (\<lambda>v. v = JBool True), json_dumps = (\<lambda>v. [])\<rparr>"

definition sample_client :: ecobee where
  "sample_client = snd (init sample_const JNull (JObj [(''API_KEY'', JStr ''KEY'')]))"

text \<open>The same client once a fetch has stored one thermostat in the registry.\<close>

definition sample_client_with_registry :: ecobee where
  "sample_client_with_registry =
     sample_client\<lparr>thermostats := JArr [JObj [(''identifier'', JStr ''311019854321'')]]\<rparr>"

section \<open>What a request changes\<close>

lemma request_fst:
  "fst (request e t m ep a ps b auth st) = fst (request_outcome t a auth)"
  by (simp add: request_def Let_def)


lemma sample_client_eq:
  "sample_client =
     \<lparr>thermostats = JNull, config_filename = JNull,
      config = JObj [(''API_KEY'', JStr ''KEY'')], api_key = JStr ''KEY'',
      pin = JNull, authorization_code = JNull, access_token = JNull,
      refresh_token = JNull, include_notifications = False,
      file_based_config = Some False, logged = [], requested = [], files = []\<rparr>"
  by (simp add: sample_client_def init_def load_config_def sample_const_def Let_def)

section \<open>Unparsable error bodies\<close>

lemma on_http_error_unparsable:
  assumes "json_body r = None"
  shows "on_http_error r a auth =
           (Inr JNull,
            [DebugInvalidJsonPayload,
             if auth then ErrorRequestingAuthorization (status_code r) (JObj [])
             else if status_code r = 500 then ErrorFromEcobeeStatus a JNull (JStr ''Unknown error'')
             else ErrorFromEcobee a (status_code r) (JObj [])])"
  using assms by (simp add: on_http_error_def status_field_def Let_def)

lemma on_http_error_empty_object:
  "fst (on_http_error (r\<lparr>json_body := Some (JObj [])\<rparr>) a auth) = Inr JNull"
  by (simp add: on_http_error_def status_field_def Let_def)

text \<open>
  Where \<open>response.json()\<close> raises on the body of a 4xx or 5xx response, \<open>_request\<close> does
  not raise: the error payload is the empty dictionary, the classification goes on exactly
  as it does for the body \<open>{}\<close>, and the method returns \<open>None\<close> after logging the
  failure, for authorisation requests and for the others, whatever the status.
\<close>

lemma request_unparsable_error_body:
  assumes "raises_http_error (status_code r)" and "json_body r = None"
  shows "fst (request e (Returns r) m ep a ps b auth st) = Inr JNull
       \<and> fst (request e (Returns r) m ep a ps b auth st)
           = fst (request e (Returns (r\<lparr>json_body := Some (JObj [])\<rparr>)) m ep a ps b auth st)
       \<and> logged (snd (request e (Returns r) m ep a ps b auth st))
           = logged st @
             [DebugMakingRequest ep a (build_request e m ep ps b auth st),
              DebugRequestResponse (status_code r) (Inr (body_text r)),
              DebugInvalidJsonPayload,
              if auth then ErrorRequestingAuthorization (status_code r) (JObj [])
              else if status_code r = 500 then ErrorFromEcobeeStatus a JNull (JStr ''Unknown error'')
              else ErrorFromEcobee a (status_code r) (JObj [])]"
proof -
  have out: "request_outcome (Returns r) a auth =
               (Inr JNull,
                [DebugRequestResponse (status_code r) (Inr (body_text r)),
                 DebugInvalidJsonPayload,
                 if auth then ErrorRequestingAuthorization (status_code r) (JObj [])
                 else if status_code r = 500 then ErrorFromEcobeeStatus a JNull (JStr ''Unknown error'')
                 else ErrorFromEcobee a (status_code r) (JObj [])])"
    using assms by (simp add: request_outcome_def on_http_error_unparsable)
  have out': "fst (request_outcome (Returns (r\<lparr>json_body := Some (JObj [])\<rparr>)) a auth) = Inr JNull"
    using assms(1) by (simp add: request_outcome_def on_http_error_empty_object)
  show ?thesis
    using out out' by (auto simp add: request_def Let_def)
qed

text \<open>
  C8, at an input where the code leaves the claim. The body \<open>NaN\<close> is not valid JSON,
  yet Python's parser accepts it (as it does \<open>Infinity\<close> and \<open>-Infinity\<close>) and
  \<open>response.json()\<close> returns a float instead of raising. The claim asks for the empty
  payload and a logged failure; the code keeps the float as \<open>json_payload\<close>, calls
  \<open>get\<close> on it, and \<open>AttributeError\<close> leaves \<open>_request\<close>, for an authorisation request
  answered by 400 as for another request answered by 500.
\<close>

theorem request_error_body_nan_raises:
  "fst (request sample_const
         (Returns \<lparr>status_code = 400, json_body = Some JNonFinite, body_text = ''NaN''\<rparr>)
         ''POST'' ''token'' ''request tokens'' JNull JNull True sample_client)
     = Inl AttributeError
   \<and> fst (request sample_const
         (Returns \<lparr>status_code = 500, json_body = Some JNonFinite, body_text = ''NaN''\<rparr>)
         ''GET'' ''thermostat'' ''get thermostats'' JNull JNull False sample_client)
     = Inl AttributeError"
  by (simp add: request_fst request_outcome_def raises_http_error_def on_http_error_def
        status_field_def Let_def)

section \<open>Classification of error responses\<close>

lemma request_outcome_success:
  assumes "\<not> raises_http_error (status_code r)" and "json_body r = Some j"
  shows "request_outcome (Returns r) a auth = (Inr j, [DebugRequestResponse (status_code r) (Inl j)])"
  using assms by (simp add: request_outcome_def)

lemma status_field_message:
  assumes "status_field p ''code'' JNull = Inr code"
  shows "\<exists>msg. status_field p ''message'' (JStr ''Unknown error'') = Inr msg"
proof (cases p)
  case (JObj kvs)
  show ?thesis
  proof (cases "map_of kvs ''status''")
    case None
    then show ?thesis using JObj by (simp add: status_field_def)
  next
    case (Some s)
    then show ?thesis using JObj assms by (cases s) (simp_all add: status_field_def)
  qed
qed (use assms in \<open>simp_all add: status_field_def\<close>)

lemma on_http_error_500:
  assumes "status_code r = 500"
      and "status_field (case json_body r of None \<Rightarrow> JObj [] | Some j \<Rightarrow> j) ''code'' JNull = Inr code"
  shows "fst (on_http_error r a False) =
           (if py_eq_int code 1 \<or> py_eq_int code 16 then Inl InvalidTokenError
            else if py_eq_int code 14 then Inl ExpiredTokenError
            else Inr JNull)"
proof -
  from status_field_message[OF assms(2)] obtain msg where
    "status_field (case json_body r of None \<Rightarrow> JObj [] | Some j \<Rightarrow> j) ''message'' (JStr ''Unknown error'') = Inr msg"
    by blast
  then show ?thesis using assms by (simp add: on_http_error_def Let_def)
qed

text \<open>
  Where the error payload is a dictionary whose \<open>status\<close> member is absent or is itself a
  dictionary, a 500 answer to a request outside the handshake is classified as the spec
  describes: \<open>InvalidTokenError\<close> for a code equal to 1 or 16, \<open>ExpiredTokenError\<close> for a
  code equal to 14, and \<open>None\<close> returned for any other code or none.
\<close>

lemma request_500_classification:
  assumes "status_code r = 500"
      and "status_field (case json_body r of None \<Rightarrow> JObj [] | Some j \<Rightarrow> j) ''code'' JNull = Inr code"
  shows "fst (request e (Returns r) m ep a ps b False st) =
           (if py_eq_int code 1 \<or> py_eq_int code 16 then Inl InvalidTokenError
            else if py_eq_int code 14 then Inl ExpiredTokenError
            else Inr JNull)"
  using on_http_error_500[OF assms, of a] assms(1)
  by (simp add: request_fst request_outcome_def raises_http_error_def Let_def)

text \<open>
  C1, at an input where the code leaves the claim. A gateway answers 500 with the JSON
  body \<open>{"status": 500, "error": "Internal Server Error"}\<close>: the payload has no
  \<open>status.code\<close>, so the claim asks for a logged failure and no raised error. The code
  evaluates \<open>json_payload.get("status", {}).get("code")\<close>, the inner \<open>get\<close> is called on
  the integer 500, and \<open>AttributeError\<close> leaves \<open>_request\<close>.
\<close>

theorem request_500_status_not_a_dict:
  "fst (request sample_const
         (Returns \<lparr>status_code = 500,
                   json_body = Some (JObj [(''status'', JInt 500),
                                           (''error'', JStr ''Internal Server Error'')]),
                   body_text = ''...''\<rparr>)
         ''GET'' ''thermostat'' ''get thermostats'' JNull JNull False sample_client)
     = Inl AttributeError"
  by (simp add: request_fst request_outcome_def raises_http_error_def on_http_error_def
        status_field_def Let_def)

lemma on_http_error_auth:
  "fst (on_http_error r a True) =
     (if status_code r = 400 then
        (case py_get (case json_body r of None \<Rightarrow> JObj [] | Some j \<Rightarrow> j) ''error'' JNull of
           Inl err \<Rightarrow> Inl err
         | Inr v \<Rightarrow> if v = JStr ''invalid_grant'' then Inl InvalidTokenError else Inr JNull)
      else Inr JNull)"
  by (simp add: on_http_error_def Let_def split: sum.splits)

text \<open>
  An error answer to a handshake request: with a status other than 400 the method returns
  \<open>None\<close>; with 400 and a dictionary payload it raises \<open>InvalidTokenError\<close> exactly when
  the \<open>error\<close> member is the string \<open>invalid_grant\<close>, and returns \<open>None\<close> otherwise.
\<close>

lemma request_auth_classification:
  assumes "raises_http_error (status_code r)"
  shows "fst (request e (Returns r) m ep a ps b True st) =
     (if status_code r = 400 then
        (case py_get (case json_body r of None \<Rightarrow> JObj [] | Some j \<Rightarrow> j) ''error'' JNull of
           Inl err \<Rightarrow> Inl err
         | Inr v \<Rightarrow> if v = JStr ''invalid_grant'' then Inl InvalidTokenError else Inr JNull)
      else Inr JNull)"
  using assms by (simp add: request_fst request_outcome_def Let_def on_http_error_auth)

text \<open>
  C2, at an input where the code leaves the claim. The token endpoint answers 400 with a
  JSON body that is a list, \<open>[{"error": "invalid_request"}]\<close>: the response is not the
  \<open>invalid_grant\<close> one, so the claim asks for a logged failure that is not raised. The
  code evaluates \<open>json_payload.get("error")\<close> on the list, and \<open>AttributeError\<close> leaves
  \<open>_request\<close> and \<open>request_tokens\<close>.
\<close>

theorem request_tokens_400_body_not_a_dict:
  "fst (request_tokens sample_const
         (Returns \<lparr>status_code = 400,
                   json_body = Some (JArr [JObj [(''error'', JStr ''invalid_request'')]]),
                   body_text = ''...''\<rparr>)
         sample_client)
     = Inl AttributeError"
  by (simp add: request_tokens_def request_def request_outcome_def raises_http_error_def
        on_http_error_def Let_def)

section \<open>Persisting the configuration\<close>

lemma written_config_distinct:
  assumes "distinct [ECOBEE_API_KEY e, ECOBEE_ACCESS_TOKEN e, ECOBEE_REFRESH_TOKEN e,
                     ECOBEE_AUTHORIZATION_CODE e, ECOBEE_OPTIONS_NOTIFICATIONS e]"
  shows "written_config e st =
           [(ECOBEE_API_KEY e, api_key st),
            (ECOBEE_ACCESS_TOKEN e, access_token st),
            (ECOBEE_REFRESH_TOKEN e, refresh_token st),
            (ECOBEE_AUTHORIZATION_CODE e, authorization_code st),
            (ECOBEE_OPTIONS_NOTIFICATIONS e, JStr (str_bool (include_notifications st)))]"
  using assms by (auto simp add: written_config_def dict_set_def Let_def)


lemma persisted_write_config:
  assumes "file_based_config st = Some fb"
  shows "fst (write_config e st) = Inr ()"
    and "persisted (snd (write_config e st)) = Some (JObj (written_config e st))"
  using assms
  by (simp_all add: write_config_def persisted_def config_from_file_def update_conv')

lemma request_pin_success:
  assumes "\<not> raises_http_error (status_code r)" and "json_body r = Some j"
      and "getitem j ''code'' = Inr c" and "getitem j ''ecobeePin'' = Inr p"
  shows "request_pin e (Returns r) st =
           (Inr True,
            st\<lparr>authorization_code := c, pin := p,
               logged := logged st @
                 [DebugMakingRequest (ECOBEE_ENDPOINT_AUTH e) ''request pin''
                    (build_request e ''GET'' (ECOBEE_ENDPOINT_AUTH e)
                       (JObj [(''response_type'', JStr ''ecobeePin''),
                              (''client_id'', api_key st),
                              (''scope'', JStr ''smartWrite'')]) JNull True st),
                  DebugRequestResponse (status_code r) (Inl j),
                  DebugAuthorizePin p],
               requested := requested st @
                 [build_request e ''GET'' (ECOBEE_ENDPOINT_AUTH e)
                    (JObj [(''response_type'', JStr ''ecobeePin''),
                           (''client_id'', api_key st),
                           (''scope'', JStr ''smartWrite'')]) JNull True st]\<rparr>)"
  using assms
  by (simp add: request_pin_def request_def request_outcome_success Let_def add_log_def)

lemma request_tokens_success:
  assumes "\<not> raises_http_error (status_code r)" and "json_body r = Some j"
      and "getitem j ''access_token'' = Inr a" and "getitem j ''refresh_token'' = Inr rt"
      and "file_based_config st = Some fb"
  shows "fst (request_tokens e (Returns r) st) = Inr True"
    and "persisted (snd (request_tokens e (Returns r) st))
           = Some (JObj (written_config e (st\<lparr>access_token := a, refresh_token := rt\<rparr>)))"
    and "pin (snd (request_tokens e (Returns r) st)) = JNull"
    and "access_token (snd (request_tokens e (Returns r) st)) = a"
    and "refresh_token (snd (request_tokens e (Returns r) st)) = rt"
    and "authorization_code (snd (request_tokens e (Returns r) st)) = authorization_code st"
  using assms
  by (cases fb;
      simp add: request_tokens_def request_def request_outcome_success Let_def add_log_def
        write_config_def config_from_file_def persisted_def update_conv' written_config_def)+

text \<open>A successful refresh persists the same five entries and leaves \<open>pin\<close> alone.\<close>

lemma refresh_tokens_success:
  assumes "\<not> raises_http_error (status_code r)" and "json_body r = Some j"
      and "getitem j ''access_token'' = Inr a" and "getitem j ''refresh_token'' = Inr rt"
      and "file_based_config st = Some fb"
  shows "fst (refresh_tokens e (Returns r) st) = Inr True"
    and "persisted (snd (refresh_tokens e (Returns r) st))
           = Some (JObj (written_config e (st\<lparr>access_token := a, refresh_token := rt\<rparr>)))"
    and "pin (snd (refresh_tokens e (Returns r) st)) = pin st"
  using assms
  by (cases fb;
      simp add: refresh_tokens_def request_def request_outcome_success Let_def add_log_def
        write_config_def config_from_file_def persisted_def update_conv' written_config_def)+

text \<open>
  C3. On a client whose constructor was given a file name or a configuration (so that
  \<open>_file_based_config\<close> is set), and with five distinct key names, \<open>request_pin\<close> answered
  by the payload \<open>{"code": "AUTH123", "ecobeePin": "ABCD-EFGH"}\<close> followed by
  \<open>request_tokens\<close> answered by \<open>{"access_token": "AT1", "refresh_token": "RT1"}\<close> both
  return \<open>True\<close>; the configuration persisted afterwards holds the access token AT1, the
  refresh token RT1 and the authorisation code AUTH123, beside the API key and the
  notifications flag, and the \<open>pin\<close> attribute, set by the first call, is \<open>None\<close> again.
\<close>

theorem pin_then_tokens_roundtrip:
  assumes "file_based_config st = Some fb"
      and "distinct [ECOBEE_API_KEY e, ECOBEE_ACCESS_TOKEN e, ECOBEE_REFRESH_TOKEN e,
                     ECOBEE_AUTHORIZATION_CODE e, ECOBEE_OPTIONS_NOTIFICATIONS e]"
      and "\<not> raises_http_error (status_code r1)"
      and "json_body r1 = Some (JObj [(''code'', JStr ''AUTH123''), (''ecobeePin'', JStr ''ABCD-EFGH'')])"
      and "\<not> raises_http_error (status_code r2)"
      and "json_body r2 = Some (JObj [(''access_token'', JStr ''AT1''), (''refresh_token'', JStr ''RT1'')])"
  shows "fst (request_pin e (Returns r1) st) = Inr True
       \<and> pin (snd (request_pin e (Returns r1) st)) = JStr ''ABCD-EFGH''
       \<and> fst (request_tokens e (Returns r2) (snd (request_pin e (Returns r1) st))) = Inr True
       \<and> persisted (snd (request_tokens e (Returns r2) (snd (request_pin e (Returns r1) st))))
           = Some (JObj [(ECOBEE_API_KEY e, api_key st),
                         (ECOBEE_ACCESS_TOKEN e, JStr ''AT1''),
                         (ECOBEE_REFRESH_TOKEN e, JStr ''RT1''),
                         (ECOBEE_AUTHORIZATION_CODE e, JStr ''AUTH123''),
                         (ECOBEE_OPTIONS_NOTIFICATIONS e, JStr (str_bool (include_notifications st)))])
       \<and> pin (snd (request_tokens e (Returns r2) (snd (request_pin e (Returns r1) st)))) = JNull"
proof -
  let ?j1 = "JObj [(''code'', JStr ''AUTH123''), (''ecobeePin'', JStr ''ABCD-EFGH'')]"
  let ?j2 = "JObj [(''access_token'', JStr ''AT1''), (''refresh_token'', JStr ''RT1'')]"
  have g1: "getitem ?j1 ''code'' = Inr (JStr ''AUTH123'')"
           "getitem ?j1 ''ecobeePin'' = Inr (JStr ''ABCD-EFGH'')" by simp_all
  have g2: "getitem ?j2 ''access_token'' = Inr (JStr ''AT1'')"
           "getitem ?j2 ''refresh_token'' = Inr (JStr ''RT1'')" by simp_all
  note p = request_pin_success[OF assms(3,4) g1, of e st]
  define st1 where "st1 = snd (request_pin e (Returns r1) st)"
  have st1: "file_based_config st1 = Some fb" "api_key st1 = api_key st"
            "authorization_code st1 = JStr ''AUTH123''" "pin st1 = JStr ''ABCD-EFGH''"
            "include_notifications st1 = include_notifications st"
    using assms(1) by (simp_all add: st1_def p)
  note t = request_tokens_success[OF assms(5,6) g2 st1(1), of e]
  have "fst (request_pin e (Returns r1) st) = Inr True" by (simp add: p)
  moreover have "persisted (snd (request_tokens e (Returns r2) st1))
           = Some (JObj [(ECOBEE_API_KEY e, api_key st),
                         (ECOBEE_ACCESS_TOKEN e, JStr ''AT1''),
                         (ECOBEE_REFRESH_TOKEN e, JStr ''RT1''),
                         (ECOBEE_AUTHORIZATION_CODE e, JStr ''AUTH123''),
                         (ECOBEE_OPTIONS_NOTIFICATIONS e, JStr (str_bool (include_notifications st)))])"
    by (simp add: t(2) written_config_distinct[OF assms(2)] st1)
  ultimately show ?thesis
    using t(1,3) st1(4) unfolding st1_def by simp
qed

theorem pin_then_tokens_roundtrip_witness:
  "file_based_config sample_client = Some False
   \<and> fst (request_tokens sample_const
            (Returns \<lparr>status_code = 200,
                      json_body = Some (JObj [(''access_token'', JStr ''AT1''), (''refresh_token'', JStr ''RT1'')]),
                      body_text = ''...''\<rparr>)
            (snd (request_pin sample_const
                    (Returns \<lparr>status_code = 200,
                              json_body = Some (JObj [(''code'', JStr ''AUTH123''), (''ecobeePin'', JStr ''ABCD-EFGH'')]),
                              body_text = ''...''\<rparr>)
                    sample_client))) = Inr True
   \<and> persisted (snd (request_tokens sample_const
            (Returns \<lparr>status_code = 200,
                      json_body = Some (JObj [(''access_token'', JStr ''AT1''), (''refresh_token'', JStr ''RT1'')]),
                      body_text = ''...''\<rparr>)
            (snd (request_pin sample_const
                    (Returns \<lparr>status_code = 200,
                              json_body = Some (JObj [(''code'', JStr ''AUTH123''), (''ecobeePin'', JStr ''ABCD-EFGH'')]),
                              body_text = ''...''\<rparr>)
                    sample_client))))
       = Some (JObj [(''API_KEY'', JStr ''KEY''),
                     (''ACCESS_TOKEN'', JStr ''AT1''),
                     (''REFRESH_TOKEN'', JStr ''RT1''),
                     (''AUTHORIZATION_CODE'', JStr ''AUTH123''),
                     (''INCLUDE_NOTIFICATIONS'', JStr ''False'')])"
  using pin_then_tokens_roundtrip
          [of sample_client False sample_const
              "\<lparr>status_code = 200,
                json_body = Some (JObj [(''code'', JStr ''AUTH123''), (''ecobeePin'', JStr ''ABCD-EFGH'')]),
                body_text = ''...''\<rparr>"
              "\<lparr>status_code = 200,
                json_body = Some (JObj [(''access_token'', JStr ''AT1''), (''refresh_token'', JStr ''RT1'')]),
                body_text = ''...''\<rparr>"]
  by (simp add: sample_client_eq sample_const_def raises_http_error_def str_bool_def)

lemma getitem_error:
  assumes "getitem j k = Inl err"
  shows "err = KeyError \<or> err = TypeError"
  using assms by (cases j) (simp_all split: option.splits)



text \<open>
  Every client built from a file name or a configuration has \<open>_file_based_config\<close> set.
\<close>

lemma init_file_based:
  assumes "init e filename cfg = (Inr u, st)" and "filename \<noteq> JNull \<or> cfg \<noteq> JNull"
  shows "\<exists>fb. file_based_config st = Some fb"
  using assms
  by (auto simp add: init_def load_config_def Let_def split: if_splits sum.splits json.splits option.splits)

text \<open>
  C4, as amended. When a success response to \<open>request_pin\<close> carries a payload from which
  \<open>code\<close> or \<open>ecobeePin\<close> cannot be read, the call returns \<open>False\<close> and leaves \<open>pin\<close>,
  \<open>access_token\<close> and \<open>refresh_token\<close> as they were; \<open>authorization_code\<close> is left as it
  was when \<open>code\<close> is the member that cannot be read.
\<close>

theorem request_pin_missing_field:
  assumes "\<not> raises_http_error (status_code r)" and "json_body r = Some j"
      and "isl (getitem j ''code'') \<or> isl (getitem j ''ecobeePin'')"
  shows "fst (request_pin e (Returns r) st) = Inr False
       \<and> pin (snd (request_pin e (Returns r) st)) = pin st
       \<and> access_token (snd (request_pin e (Returns r) st)) = access_token st
       \<and> refresh_token (snd (request_pin e (Returns r) st)) = refresh_token st
       \<and> (isl (getitem j ''code'')
            \<longrightarrow> authorization_code (snd (request_pin e (Returns r) st)) = authorization_code st)"
proof (cases "getitem j ''code''")
  case (Inl err)
  with getitem_error[OF Inl] show ?thesis
    using assms(1,2)
    by (auto simp add: request_pin_def request_def request_outcome_success Let_def
          except_key_type_def add_log_def)
next
  case (Inr c)
  with assms(3) obtain err where err: "getitem j ''ecobeePin'' = Inl err"
    by (cases "getitem j ''ecobeePin''") simp_all
  from getitem_error[OF err] show ?thesis
    using assms(1,2) Inr err
    by (auto simp add: request_pin_def request_def request_outcome_success Let_def
          except_key_type_def add_log_def)
qed

theorem request_pin_missing_field_witness:
  "isl (getitem (JObj [(''ecobeePin'', JStr ''ABCD-EFGH'')]) ''code'')
   \<and> fst (request_pin sample_const
            (Returns \<lparr>status_code = 200,
                      json_body = Some (JObj [(''ecobeePin'', JStr ''ABCD-EFGH'')]),
                      body_text = ''...''\<rparr>)
            sample_client) = Inr False
   \<and> authorization_code (snd (request_pin sample_const
            (Returns \<lparr>status_code = 200,
                      json_body = Some (JObj [(''ecobeePin'', JStr ''ABCD-EFGH'')]),
                      body_text = ''...''\<rparr>)
            sample_client)) = JNull
   \<and> pin (snd (request_pin sample_const
            (Returns \<lparr>status_code = 200,
                      json_body = Some (JObj [(''ecobeePin'', JStr ''ABCD-EFGH'')]),
                      body_text = ''...''\<rparr>)
            sample_client)) = JNull"
  using request_pin_missing_field
          [of "\<lparr>status_code = 200,
                json_body = Some (JObj [(''ecobeePin'', JStr ''ABCD-EFGH'')]),
                body_text = ''...''\<rparr>"
              "JObj [(''ecobeePin'', JStr ''ABCD-EFGH'')]" sample_const sample_client]
  by (simp add: raises_http_error_def sample_client_eq)

text \<open>
  C4 as stated fails when only \<open>ecobeePin\<close> is missing: the method assigns
  \<open>self.authorization_code\<close> on line 100 before the subscript on line 101 raises
  \<open>KeyError\<close>, so the call returns \<open>False\<close> with the authorisation code overwritten.
\<close>

theorem request_pin_missing_pin_counterexample:
  "fst (request_pin sample_const
          (Returns \<lparr>status_code = 200, json_body = Some (JObj [(''code'', JStr ''AUTH123'')]),
                    body_text = ''...''\<rparr>)
          sample_client) = Inr False
   \<and> authorization_code sample_client = JNull
   \<and> authorization_code (snd (request_pin sample_const
          (Returns \<lparr>status_code = 200, json_body = Some (JObj [(''code'', JStr ''AUTH123'')]),
                    body_text = ''...''\<rparr>)
          sample_client)) = JStr ''AUTH123''"
  by (simp add: request_pin_def request_def request_outcome_def raises_http_error_def Let_def
        except_key_type_def add_log_def sample_client_eq)









lemma written_config_frame:
  "written_config e (st\<lparr>pin := p\<rparr>) = written_config e st"
  "written_config e (st\<lparr>logged := lg\<rparr>) = written_config e st"
  "written_config e (st\<lparr>requested := rq\<rparr>) = written_config e st"
  "written_config e (st\<lparr>config := c\<rparr>) = written_config e st"
  "written_config e (st\<lparr>files := f\<rparr>) = written_config e st"
  by (simp_all add: written_config_def)






section \<open>Fetching the registry\<close>

lemma get_thermostats_registry:
  "thermostats (snd (get_thermostats e t st)) =
     (case fst (request_outcome t ''get thermostats'' False) of
        Inl err \<Rightarrow> thermostats st
      | Inr resp \<Rightarrow> (case getitem resp ''thermostatList'' of Inl err \<Rightarrow> thermostats st | Inr l \<Rightarrow> l))"
  by (simp add: get_thermostats_def request_def Let_def split: sum.splits)

lemma get_thermostats_result:
  "fst (get_thermostats e t st) =
     (case fst (request_outcome t ''get thermostats'' False) of
        Inl err \<Rightarrow> Inl err
      | Inr resp \<Rightarrow> Inr (\<not> isl (getitem resp ''thermostatList'')))"
proof (cases "fst (request_outcome t ''get thermostats'' False)")
  case (Inl err)
  then show ?thesis by (simp add: get_thermostats_def request_def Let_def)
next
  case (Inr resp)
  show ?thesis
  proof (cases "getitem resp ''thermostatList''")
    case (Inl err)
    with getitem_error[OF Inl] Inr show ?thesis
      by (auto simp add: get_thermostats_def request_def Let_def)
  next
    case (Inr l)
    with \<open>fst (request_outcome t ''get thermostats'' False) = Inr resp\<close> show ?thesis
      by (simp add: get_thermostats_def request_def Let_def)
  qed
qed








text \<open>
  C9. Two calls of \<open>get_thermostats\<close> answered by success responses with the same payload
  both return \<open>True\<close>, and after each of them the registry is the payload's
  \<open>thermostatList\<close>, whatever it held before.
\<close>

theorem get_thermostats_twice:
  assumes "\<not> raises_http_error (status_code r1)" and "json_body r1 = Some j"
      and "\<not> raises_http_error (status_code r2)" and "json_body r2 = Some j"
      and "getitem j ''thermostatList'' = Inr l"
  shows "fst (get_thermostats e (Returns r1) st) = Inr True
       \<and> thermostats (snd (get_thermostats e (Returns r1) st)) = l
       \<and> fst (get_thermostats e (Returns r2) (snd (get_thermostats e (Returns r1) st))) = Inr True
       \<and> thermostats (snd (get_thermostats e (Returns r2) (snd (get_thermostats e (Returns r1) st)))) = l"
  using assms
  by (simp add: get_thermostats_registry get_thermostats_result request_outcome_success)

theorem get_thermostats_twice_witness:
  "thermostats (snd (get_thermostats sample_const
      (Returns \<lparr>status_code = 200,
                json_body = Some (JObj [(''thermostatList'', JArr [JObj [(''identifier'', JStr ''A'')]])]),
                body_text = ''...''\<rparr>)
      sample_client_with_registry))
     = JArr [JObj [(''identifier'', JStr ''A'')]]
   \<and> thermostats (snd (get_thermostats sample_const
      (Returns \<lparr>status_code = 200,
                json_body = Some (JObj [(''thermostatList'', JArr [JObj [(''identifier'', JStr ''A'')]])]),
                body_text = ''...''\<rparr>)
      (snd (get_thermostats sample_const
        (Returns \<lparr>status_code = 200,
                  json_body = Some (JObj [(''thermostatList'', JArr [JObj [(''identifier'', JStr ''A'')]])]),
                  body_text = ''...''\<rparr>)
        sample_client_with_registry))))
     = JArr [JObj [(''identifier'', JStr ''A'')]]"
  using get_thermostats_twice
          [of "\<lparr>status_code = 200,
                json_body = Some (JObj [(''thermostatList'', JArr [JObj [(''identifier'', JStr ''A'')]])]),
                body_text = ''...''\<rparr>"
              "JObj [(''thermostatList'', JArr [JObj [(''identifier'', JStr ''A'')]])]"
              "\<lparr>status_code = 200,
                json_body = Some (JObj [(''thermostatList'', JArr [JObj [(''identifier'', JStr ''A'')]])]),
                body_text = ''...''\<rparr>"
              "JArr [JObj [(''identifier'', JStr ''A'')]]" sample_const sample_client_with_registry]
  by (simp add: raises_http_error_def)

text \<open>
  C6. When the registry holds a thermostat with an identifier at the index given,
  \<open>send_message\<close> makes one POST request whose body carries the function \<open>sendMessage\<close>
  with the \<open>text\<close> parameter equal to the first 500 characters of the message, for every
  message and whatever the transport then does.
\<close>

theorem send_message_truncates:
  assumes "getitem_int (thermostats st) index = Inr th" and "getitem th ''identifier'' = Inr ident"
  shows "requested (snd (send_message e t index message st)) =
           requested st @
           [build_request e ''POST'' (ECOBEE_ENDPOINT_THERMOSTAT e) JNull
              (JObj [(''selection'', JObj [(''selectionType'', JStr ''thermostats''),
                                           (''selectionMatch'', ident)]),
                     (''functions'',
                      JArr [JObj [(''type'', JStr ''sendMessage''),
                                  (''params'', JObj [(''text'', JStr (take 500 message))])]])])
              False st]"
  using assms
  by (simp add: send_message_def post_update_def request_def Let_def dict_set_def
        split: sum.splits)

theorem send_message_truncates_witness:
  "length (replicate 500 CHR ''a'' @ replicate 100 CHR ''b'') = 600
   \<and> map json_arg (requested (snd (send_message sample_const RaisesTimeout 0
         (replicate 500 CHR ''a'' @ replicate 100 CHR ''b'') sample_client_with_registry)))
     = [JObj [(''selection'', JObj [(''selectionType'', JStr ''thermostats''),
                                    (''selectionMatch'', JStr ''311019854321'')]),
              (''functions'',
               JArr [JObj [(''type'', JStr ''sendMessage''),
                           (''params'', JObj [(''text'', JStr (replicate 500 CHR ''a''))])]])]]"
  using send_message_truncates
          [of sample_client_with_registry 0 "JObj [(''identifier'', JStr ''311019854321'')]"
              "JStr ''311019854321''" sample_const RaisesTimeout
              "replicate 500 CHR ''a'' @ replicate 100 CHR ''b''"]
  by (simp add: sample_client_with_registry_def sample_client_eq seq_index_def build_request_def)

section \<open>Holds\<close>

text \<open>
  \<open>set_hold_temp\<close> never reaches \<open>_request\<close>: \<open>post_update\<close> has no parameter named
  \<open>functions\<close>, so the call raises \<open>TypeError\<close> for every input and changes nothing.
\<close>

lemma set_hold_temp_raises:
  "set_hold_temp e t index cool_temp heat_temp hold_type hold_hours st = (Inl TypeError, st)"
  by (simp add: set_hold_temp_def post_update_def Let_def)

text \<open>
  \<open>set_fan_mode\<close>, which passes \<open>funcs\<close>, transmits the temperatures multiplied by ten.
\<close>

lemma set_fan_mode_scaled:
  assumes "getitem_int (thermostats st) index = Inr th" and "getitem th ''identifier'' = Inr ident"
  shows "map json_arg (requested (snd (set_fan_mode e t index fan_mode cool_temp heat_temp hold_type st))) =
           map json_arg (requested st) @
           [JObj [(''selection'', JObj [(''selectionType'', JStr ''thermostats''),
                                        (''selectionMatch'', ident)]),
                  (''functions'',
                   JArr [JObj [(''type'', JStr ''setHold''),
                               (''params'', JObj [(''holdType'', JStr hold_type),
                                                  (''coolHoldTemp'', JInt (cool_temp * 10)),
                                                  (''heatHoldTemp'', JInt (heat_temp * 10)),
                                                  (''fan'', JStr fan_mode)])]])]]"
  using assms
  by (simp add: set_fan_mode_def post_update_def request_def Let_def dict_set_def build_request_def
        split: sum.splits)

text \<open>
  C7, at an input where the code leaves the claim: \<open>set_hold_temp(0, 78, 68)\<close> on a
  client whose registry holds one thermostat. The claim asks for a transmitted
  \<open>coolHoldTemp\<close> of 780 and \<open>heatHoldTemp\<close> of 680; the call raises \<open>TypeError\<close> and no
  request is made.
\<close>

theorem set_hold_temp_78_68_raises:
  "set_hold_temp sample_const
     (Returns \<lparr>status_code = 200, json_body = Some (JObj []), body_text = ''{}''\<rparr>)
     0 78 68 ''nextTransition'' ''2'' sample_client_with_registry
   = (Inl TypeError, sample_client_with_registry)"
  by (simp add: set_hold_temp_def post_update_def Let_def)

end
